theory Spec2Isabelle
  imports Complex_Main
begin

section \<open>Numbers and linear-algebra values\<close>

text \<open>
  The program computes with JavaScript numbers. They are modelled as real numbers: the
  model is the exact arithmetic that the floating-point code approximates, and rounding
  (in particular the single precision of the library's typed arrays) is not part of it.
  A property that the specification states "within floating tolerance" is therefore
  stated and proved here as an exact equality of real arithmetic.

  A two-component array \<open>[x, y]\<close> is a pair; longer vectors, quaternions and matrices
  are datatypes whose selectors are named after the array index that the source reads:
  \<open>m14 m\<close> is \<open>m[14]\<close>.
\<close>

type_synonym vec2 = "real \<times> real"

type_synonym vec3 = "real \<times> real \<times> real"

datatype vec4 = Vec4 (v0: real) (v1: real) (v2: real) (v3: real)

datatype quat = Quat (q0: real) (q1: real) (q2: real) (q3: real)

datatype mat3 = Mat3 real real real real real real real real real

datatype mat4 = Mat4
  (m0: real) (m1: real) (m2: real) (m3: real)
  (m4: real) (m5: real) (m6: real) (m7: real)
  (m8: real) (m9: real) (m10: real) (m11: real)
  (m12: real) (m13: real) (m14: real) (m15: real)

text \<open>The assignment \<open>m[14] = v\<close>.\<close>

fun mat4_set14 :: "mat4 \<Rightarrow> real \<Rightarrow> mat4" where
  "mat4_set14 (Mat4 a0 a1 a2 a3 a4 a5 a6 a7 a8 a9 a10 a11 a12 a13 a14 a15) v =
     Mat4 a0 a1 a2 a3 a4 a5 a6 a7 a8 a9 a10 a11 a12 a13 v a15"

section \<open>The vector library\<close>

text \<open>
  Both source files import their vector, quaternion and matrix functions from the
  \<open>wgpu-matrix\<close> module, which is not among the source files. The functions that the
  modelled code calls are defined in this section. A matrix is stored column by column:
  the entry in row \<open>r\<close> and column \<open>c\<close> is at index \<open>4 * c + r\<close>.
\<close>

text \<open>Modelled from the spec: \<open>vec2.dot\<close>, the dot product of two 2D vectors.\<close>

fun vec2_dot :: "vec2 \<Rightarrow> vec2 \<Rightarrow> real" where
  "vec2_dot (a0, a1) (b0, b1) = a0 * b0 + a1 * b1"

text \<open>
  Modelled from the spec: \<open>vec2.normalize\<close>, the vector divided by its length. The
  library returns the zero vector when the length is at most \<open>0.00001\<close>.
\<close>

fun vec2_normalize :: "vec2 \<Rightarrow> vec2" where
  "vec2_normalize (x, y) =
     (let len = sqrt (x * x + y * y)
      in if len > 1 / 100000 then (x / len, y / len) else (0, 0))"

text \<open>
  Modelled from the spec: \<open>vec2.lerp\<close>, the linear interpolation \<open>a + t (b - a)\<close>; at
  \<open>t = 0.5\<close> it is the average of the two vectors.
\<close>

fun vec2_lerp :: "vec2 \<Rightarrow> vec2 \<Rightarrow> real \<Rightarrow> vec2" where
  "vec2_lerp (a0, a1) (b0, b1) t = (a0 + t * (b0 - a0), a1 + t * (b1 - a1))"

text \<open>
  Modelled from the spec: \<open>quat.mul\<close>, the quaternion product \<open>a \<cdot> b\<close> of quaternions
  stored as \<open>(x, y, z, w)\<close> with the scalar part last.
\<close>

fun quat_mul :: "quat \<Rightarrow> quat \<Rightarrow> quat" where
  "quat_mul (Quat ax ay az aw) (Quat bx by bz bw) =
     Quat (ax * bw + aw * bx + ay * bz - az * by)
          (ay * bw + aw * by + az * bx - ax * bz)
          (az * bw + aw * bz + ax * by - ay * bx)
          (aw * bw - ax * bx - ay * by - az * bz)"

text \<open>
  Modelled from the spec: \<open>mat4.translation\<close>, the matrix of the translation by the
  first three components of its argument.
\<close>

fun mat4_translation :: "vec3 \<Rightarrow> mat4" where
  "mat4_translation (x, y, z) = Mat4 1 0 0 0  0 1 0 0  0 0 1 0  x y z 1"

text \<open>Modelled from the spec: \<open>mat4.mul\<close>, the matrix product \<open>a \<cdot> b\<close>.\<close>

definition mat4_mul :: "mat4 \<Rightarrow> mat4 \<Rightarrow> mat4" where
  "mat4_mul a b = Mat4
     (m0 a * m0 b + m4 a * m1 b + m8 a * m2 b + m12 a * m3 b)
     (m1 a * m0 b + m5 a * m1 b + m9 a * m2 b + m13 a * m3 b)
     (m2 a * m0 b + m6 a * m1 b + m10 a * m2 b + m14 a * m3 b)
     (m3 a * m0 b + m7 a * m1 b + m11 a * m2 b + m15 a * m3 b)
     (m0 a * m4 b + m4 a * m5 b + m8 a * m6 b + m12 a * m7 b)
     (m1 a * m4 b + m5 a * m5 b + m9 a * m6 b + m13 a * m7 b)
     (m2 a * m4 b + m6 a * m5 b + m10 a * m6 b + m14 a * m7 b)
     (m3 a * m4 b + m7 a * m5 b + m11 a * m6 b + m15 a * m7 b)
     (m0 a * m8 b + m4 a * m9 b + m8 a * m10 b + m12 a * m11 b)
     (m1 a * m8 b + m5 a * m9 b + m9 a * m10 b + m13 a * m11 b)
     (m2 a * m8 b + m6 a * m9 b + m10 a * m10 b + m14 a * m11 b)
     (m3 a * m8 b + m7 a * m9 b + m11 a * m10 b + m15 a * m11 b)
     (m0 a * m12 b + m4 a * m13 b + m8 a * m14 b + m12 a * m15 b)
     (m1 a * m12 b + m5 a * m13 b + m9 a * m14 b + m13 a * m15 b)
     (m2 a * m12 b + m6 a * m13 b + m10 a * m14 b + m14 a * m15 b)
     (m3 a * m12 b + m7 a * m13 b + m11 a * m14 b + m15 a * m15 b)"

text \<open>
  Modelled from the spec: \<open>mat4.fromQuat\<close>, the rotation matrix of a quaternion
  ("rotation" in \<open>camera = translation \<cdot> rotation \<cdot> centerTranslation\<close>).
\<close>

fun mat4_fromQuat :: "quat \<Rightarrow> mat4" where
  "mat4_fromQuat (Quat x y z w) =
     (let x2 = x + x; y2 = y + y; z2 = z + z;
          xx = x * x2; yx = y * x2; yy = y * y2;
          zx = z * x2; zy = z * y2; zz = z * z2;
          wx = w * x2; wy = w * y2; wz = w * z2
      in Mat4 (1 - yy - zz) (yx + wz) (zx - wy) 0
              (yx - wz) (1 - xx - zz) (zy + wx) 0
              (zx + wy) (zy - wx) (1 - xx - yy) 0
              0 0 0 1)"

text \<open>
  Modelled from the spec: \<open>vec3.sub\<close>, \<open>vec3.len\<close>, \<open>vec3.normalize\<close> and
  \<open>vec3.cross\<close>, with which the constructor derives its orthonormal basis
  (\<open>forward = normalize(center - eye)\<close>, \<open>right = normalize(forward \<times> up)\<close>), and
  \<open>mat3.transpose\<close>. A 3x3 matrix is given by its nine entries in the order in which
  \<open>mat3.create\<close> receives them.
\<close>

fun vec3_sub :: "vec3 \<Rightarrow> vec3 \<Rightarrow> vec3" where
  "vec3_sub (a0, a1, a2) (b0, b1, b2) = (a0 - b0, a1 - b1, a2 - b2)"

fun vec3_len :: "vec3 \<Rightarrow> real" where
  "vec3_len (x, y, z) = sqrt (x * x + y * y + z * z)"

fun vec3_normalize :: "vec3 \<Rightarrow> vec3" where
  "vec3_normalize (x, y, z) =
     (let len = sqrt (x * x + y * y + z * z)
      in if len > 1 / 100000 then (x / len, y / len, z / len) else (0, 0, 0))"

fun vec3_cross :: "vec3 \<Rightarrow> vec3 \<Rightarrow> vec3" where
  "vec3_cross (a0, a1, a2) (b0, b1, b2) =
     (a1 * b2 - a2 * b1, a2 * b0 - a0 * b2, a0 * b1 - a1 * b0)"

fun mat3_transpose :: "mat3 \<Rightarrow> mat3" where
  "mat3_transpose (Mat3 a b c d e f g h i) = Mat3 a d g b e h c f i"

text \<open>
  Modelled from the spec: \<open>vec4.transformMat4\<close>, the product of a matrix and a column
  vector ("transforms that displacement into world space via \<open>invCamera\<close>").
\<close>

definition vec4_transformMat4 :: "vec4 \<Rightarrow> mat4 \<Rightarrow> vec4" where
  "vec4_transformMat4 v m = Vec4
     (m0 m * v0 v + m4 m * v1 v + m8 m * v2 v + m12 m * v3 v)
     (m1 m * v0 v + m5 m * v1 v + m9 m * v2 v + m13 m * v3 v)
     (m2 m * v0 v + m6 m * v1 v + m10 m * v2 v + m14 m * v3 v)
     (m3 m * v0 v + m7 m * v1 v + m11 m * v2 v + m15 m * v3 v)"

text \<open>
  Modelled from the spec: the determinants from which \<open>mat4.invert\<close> builds the inverse
  (\<open>invCamera = camera\<^sup>-\<^sup>1\<close>). First the determinant of a 3x3 matrix given by its rows.
\<close>

definition det3 :: "real \<Rightarrow> real \<Rightarrow> real \<Rightarrow> real \<Rightarrow> real \<Rightarrow> real \<Rightarrow> real \<Rightarrow> real \<Rightarrow> real \<Rightarrow> real" where
  "det3 a b c d e f g h i = a * (e * i - f * h) - b * (d * i - f * g) + c * (d * h - e * g)"

text \<open>
  The minors of a 4x4 matrix: \<open>minor_r_c\<close> is the determinant of the matrix without row
  \<open>r\<close> and column \<open>c\<close>.
\<close>

definition minor00 :: "mat4 \<Rightarrow> real" where
  "minor00 a = det3 (m5 a) (m9 a) (m13 a) (m6 a) (m10 a) (m14 a) (m7 a) (m11 a) (m15 a)"

definition minor01 :: "mat4 \<Rightarrow> real" where
  "minor01 a = det3 (m1 a) (m9 a) (m13 a) (m2 a) (m10 a) (m14 a) (m3 a) (m11 a) (m15 a)"

definition minor02 :: "mat4 \<Rightarrow> real" where
  "minor02 a = det3 (m1 a) (m5 a) (m13 a) (m2 a) (m6 a) (m14 a) (m3 a) (m7 a) (m15 a)"

definition minor03 :: "mat4 \<Rightarrow> real" where
  "minor03 a = det3 (m1 a) (m5 a) (m9 a) (m2 a) (m6 a) (m10 a) (m3 a) (m7 a) (m11 a)"

definition minor10 :: "mat4 \<Rightarrow> real" where
  "minor10 a = det3 (m4 a) (m8 a) (m12 a) (m6 a) (m10 a) (m14 a) (m7 a) (m11 a) (m15 a)"

definition minor11 :: "mat4 \<Rightarrow> real" where
  "minor11 a = det3 (m0 a) (m8 a) (m12 a) (m2 a) (m10 a) (m14 a) (m3 a) (m11 a) (m15 a)"

definition minor12 :: "mat4 \<Rightarrow> real" where
  "minor12 a = det3 (m0 a) (m4 a) (m12 a) (m2 a) (m6 a) (m14 a) (m3 a) (m7 a) (m15 a)"

definition minor13 :: "mat4 \<Rightarrow> real" where
  "minor13 a = det3 (m0 a) (m4 a) (m8 a) (m2 a) (m6 a) (m10 a) (m3 a) (m7 a) (m11 a)"

definition minor20 :: "mat4 \<Rightarrow> real" where
  "minor20 a = det3 (m4 a) (m8 a) (m12 a) (m5 a) (m9 a) (m13 a) (m7 a) (m11 a) (m15 a)"

definition minor21 :: "mat4 \<Rightarrow> real" where
  "minor21 a = det3 (m0 a) (m8 a) (m12 a) (m1 a) (m9 a) (m13 a) (m3 a) (m11 a) (m15 a)"

definition minor22 :: "mat4 \<Rightarrow> real" where
  "minor22 a = det3 (m0 a) (m4 a) (m12 a) (m1 a) (m5 a) (m13 a) (m3 a) (m7 a) (m15 a)"

definition minor23 :: "mat4 \<Rightarrow> real" where
  "minor23 a = det3 (m0 a) (m4 a) (m8 a) (m1 a) (m5 a) (m9 a) (m3 a) (m7 a) (m11 a)"

definition minor30 :: "mat4 \<Rightarrow> real" where
  "minor30 a = det3 (m4 a) (m8 a) (m12 a) (m5 a) (m9 a) (m13 a) (m6 a) (m10 a) (m14 a)"

definition minor31 :: "mat4 \<Rightarrow> real" where
  "minor31 a = det3 (m0 a) (m8 a) (m12 a) (m1 a) (m9 a) (m13 a) (m2 a) (m10 a) (m14 a)"

definition minor32 :: "mat4 \<Rightarrow> real" where
  "minor32 a = det3 (m0 a) (m4 a) (m12 a) (m1 a) (m5 a) (m13 a) (m2 a) (m6 a) (m14 a)"

definition minor33 :: "mat4 \<Rightarrow> real" where
  "minor33 a = det3 (m0 a) (m4 a) (m8 a) (m1 a) (m5 a) (m9 a) (m2 a) (m6 a) (m10 a)"

text \<open>The determinant, expanded along the first row.\<close>

definition mat4_determinant :: "mat4 \<Rightarrow> real" where
  "mat4_determinant a =
     m0 a * minor00 a - m4 a * minor01 a + m8 a * minor02 a - m12 a * minor03 a"

text \<open>
  Modelled from the spec: \<open>mat4.invert\<close>, the matrix inverse
  (\<open>invCamera = camera\<^sup>-\<^sup>1\<close>): the signed, transposed minors times the reciprocal \<open>d\<close>
  of the determinant. The library does not test the determinant: for a singular matrix
  JavaScript's \<open>1 / 0\<close> gives entries that are infinite or not numbers, which the reals
  cannot represent (in HOL \<open>1 / 0 = 0\<close>). A statement about the entries of an inverse
  therefore assumes a determinant other than zero.
\<close>

definition mat4_invert :: "mat4 \<Rightarrow> mat4" where
  "mat4_invert a =
     (let d = 1 / mat4_determinant a
      in Mat4 (d * minor00 a) (- (d * minor01 a)) (d * minor02 a) (- (d * minor03 a))
              (- (d * minor10 a)) (d * minor11 a) (- (d * minor12 a)) (d * minor13 a)
              (d * minor20 a) (- (d * minor21 a)) (d * minor22 a) (- (d * minor23 a))
              (- (d * minor30 a)) (d * minor31 a) (- (d * minor32 a)) (d * minor33 a))"

text \<open>The identity matrix and the length of a quaternion, for the statements below.\<close>

definition mat4_identity :: mat4 where
  "mat4_identity = Mat4 1 0 0 0  0 1 0 0  0 0 1 0  0 0 0 1"

definition quat_len :: "quat \<Rightarrow> real" where
  "quat_len q = sqrt (q0 q * q0 q + q1 q * q1 q + q2 q * q2 q + q3 q * q3 q)"

section \<open>The arcball camera\<close>

text \<open>The fields that the constructor of \<open>ArcballCamera\<close> creates.\<close>

record ArcballCamera =
  zoomSpeed :: real
  invScreen :: vec2
  centerTranslation :: mat4
  translation :: mat4
  rotation :: quat
  camera :: mat4
  invCamera :: mat4

definition clamp :: "real \<Rightarrow> real \<Rightarrow> real \<Rightarrow> real" where
  "clamp a mn mx = (if a < mn then mn else if a > mx then mx else a)"

definition screenToArcball :: "vec2 \<Rightarrow> quat" where
  "screenToArcball p =
     (let dist = vec2_dot p p
      in if dist \<le> 1 then Quat (fst p) (snd p) (sqrt (1 - dist)) 0
         else (let unitP = vec2_normalize p in Quat (fst unitP) (snd unitP) 0 0))"

definition updateCameraMatrix :: "ArcballCamera \<Rightarrow> ArcballCamera" where
  "updateCameraMatrix s =
     (let rotMat = mat4_fromQuat (rotation s);
          s1 = s\<lparr>camera := mat4_mul rotMat (centerTranslation s)\<rparr>;
          s2 = s1\<lparr>camera := mat4_mul (translation s1) (camera s1)\<rparr>
      in s2\<lparr>invCamera := mat4_invert (camera s2)\<rparr>)"

text \<open>
  \<open>rotate\<close>; the name is taken by a list function. The first coordinate of \<open>mPrev\<close> is
  computed from \<open>curMouse[0]\<close>, as line 56 of the source has it.
\<close>

definition rotate_cam :: "ArcballCamera \<Rightarrow> vec2 \<Rightarrow> vec2 \<Rightarrow> ArcballCamera" where
  "rotate_cam s prevMouse curMouse =
     (let mPrev = (clamp (fst curMouse * 2 * fst (invScreen s) - 1) (- 1) 1,
                   clamp (1 - snd prevMouse * 2 * snd (invScreen s)) (- 1) 1);
          mCur = (clamp (fst curMouse * 2 * fst (invScreen s) - 1) (- 1) 1,
                  clamp (1 - snd curMouse * 2 * snd (invScreen s)) (- 1) 1);
          mPrevBall = screenToArcball mPrev;
          mCurBall = screenToArcball mCur;
          s1 = s\<lparr>rotation := quat_mul mPrevBall (rotation s)\<rparr>;
          s2 = s1\<lparr>rotation := quat_mul mCurBall (rotation s1)\<rparr>
      in updateCameraMatrix s2)"

definition zoom :: "ArcballCamera \<Rightarrow> real \<Rightarrow> ArcballCamera" where
  "zoom s amount =
     (let vt = (0, 0, amount * snd (invScreen s) * zoomSpeed s);
          t = mat4_translation vt;
          s1 = s\<lparr>translation := mat4_mul t (translation s)\<rparr>;
          s2 = (if m14 (translation s1) \<ge> - (2 / 10)
                then s1\<lparr>translation := mat4_set14 (translation s1) (- (2 / 10))\<rparr>
                else s1)
      in updateCameraMatrix s2)"

definition pan :: "ArcballCamera \<Rightarrow> vec2 \<Rightarrow> ArcballCamera" where
  "pan s mouseDelta =
     (let delta = Vec4 (fst mouseDelta * fst (invScreen s) * \<bar>m14 (translation s)\<bar>)
                       (snd mouseDelta * snd (invScreen s) * \<bar>m14 (translation s)\<bar>) 0 0;
          worldDelta = vec4_transformMat4 delta (invCamera s);
          translation = mat4_translation (v0 worldDelta, v1 worldDelta, v2 worldDelta);
          s1 = s\<lparr>centerTranslation := mat4_mul translation (centerTranslation s)\<rparr>
      in updateCameraMatrix s1)"

text \<open>
  The constructor. The library functions \<open>quat.fromMat\<close> and \<open>quat.normalize\<close>, which
  turn the basis into the initial rotation, are parameters of the model: nothing below
  depends on what they compute. Line 29 of the source passes \<open>yAxis\<close> as the destination
  of the cross product, so it is \<open>yAxis\<close> that the line overwrites. \<open>mat4.create()\<close>
  allocates \<open>camera\<close> and \<open>invCamera\<close>, and \<open>updateCameraMatrix\<close> overwrites both at
  once; the model starts them as the zero matrix.
\<close>

definition mat4_create :: mat4 where
  "mat4_create = Mat4 0 0 0 0  0 0 0 0  0 0 0 0  0 0 0 0"

definition ArcballCamera_new ::
  "(mat3 \<Rightarrow> quat) \<Rightarrow> (quat \<Rightarrow> quat) \<Rightarrow> vec3 \<Rightarrow> vec3 \<Rightarrow> vec3 \<Rightarrow> real \<Rightarrow> vec2 \<Rightarrow> ArcballCamera"
  where
  "ArcballCamera_new quat_fromMat quat_normalize eye center up zoomSpeed' screenDims =
     (let veye = eye;
          vcenter = center;
          vup = vec3_normalize up;
          zAxis = vec3_sub vcenter veye;
          viewDist = vec3_len zAxis;
          zAxis = vec3_normalize zAxis;
          xAxis = vec3_cross zAxis vup;
          xAxis = vec3_normalize xAxis;
          yAxis = vec3_cross xAxis zAxis;
          yAxis = vec3_normalize yAxis;
          yAxis = vec3_cross xAxis zAxis;
          xAxis = vec3_normalize xAxis;
          centerTranslation' = mat4_invert (mat4_translation center);
          vt = (0, 0, - 1 * viewDist);
          rotMat = (case (xAxis, yAxis, zAxis) of
                      ((x0, x1, x2), (y0, y1, y2), (z0, z1, z2)) \<Rightarrow>
                        Mat3 x0 x1 x2 y0 y1 y2 (- z0) (- z1) (- z2));
          rotMat = mat3_transpose rotMat
      in updateCameraMatrix
           \<lparr>zoomSpeed = zoomSpeed',
            invScreen = (1 / fst screenDims, 1 / snd screenDims),
            centerTranslation = centerTranslation',
            translation = mat4_translation vt,
            rotation = quat_normalize (quat_fromMat rotMat),
            camera = mat4_create,
            invCamera = mat4_create\<rparr>)"

section \<open>The gesture controller\<close>

text \<open>
  \<open>touches\<close> and the local \<open>curTouches\<close> are JavaScript objects used as tables from touch
  identifiers to positions, and the source enumerates them with \<open>for (t in ...)\<close>. An
  object enumerates its keys that are array indices (the integers from \<open>0\<close> to
  \<open>2\<^sup>3\<^sup>2 - 2\<close>) first and in ascending order, then its other keys in the order in which
  they were created. A table is modelled as the list of its entries in enumeration order.
\<close>

type_synonym 'v js_object = "(int \<times> 'v) list"

definition is_array_index :: "int \<Rightarrow> bool" where
  "is_array_index k \<longleftrightarrow> 0 \<le> k \<and> k < 2 ^ 32 - 1"

text \<open>\<open>k in obj\<close>.\<close>

definition obj_has :: "'v js_object \<Rightarrow> int \<Rightarrow> bool" where
  "obj_has obj k \<longleftrightarrow> map_of obj k \<noteq> None"

text \<open>The place of a new key in the enumeration order.\<close>

fun obj_insert :: "int \<Rightarrow> 'v \<Rightarrow> 'v js_object \<Rightarrow> 'v js_object" where
  "obj_insert k v [] = [(k, v)]"
| "obj_insert k v ((k', v') # rest) =
     (if is_array_index k \<and> (k < k' \<or> \<not> is_array_index k')
      then (k, v) # (k', v') # rest
      else (k', v') # obj_insert k v rest)"

text \<open>\<open>obj[k] = v\<close>: an existing key keeps its place.\<close>

definition obj_put :: "int \<Rightarrow> 'v \<Rightarrow> 'v js_object \<Rightarrow> 'v js_object" where
  "obj_put k v obj =
     (if obj_has obj k then map (\<lambda>(k', v'). if k' = k then (k, v) else (k', v')) obj
      else obj_insert k v obj)"

text \<open>\<open>delete obj[k]\<close>.\<close>

definition obj_delete :: "int \<Rightarrow> 'v js_object \<Rightarrow> 'v js_object" where
  "obj_delete k obj = filter (\<lambda>(k', v'). k' \<noteq> k) obj"

text \<open>
  A touch of an event's \<open>changedTouches\<close> (its field \<open>identifier\<close> is named
  \<open>touch_identifier\<close>, the plain name being a keyword), and the event. Of the canvas only the corner
  of its bounding rectangle matters: \<open>rect.left\<close> and \<open>rect.top\<close>.
\<close>

record Touch =
  touch_identifier :: int
  clientX :: real
  clientY :: real

record TouchEvent =
  changedTouches :: "Touch list"

text \<open>
  The fields of the controller that the touch handlers use. A callback field holds either
  \<open>null\<close> or a function; the model records whether a function is registered, and a call
  of a registered callback is an entry of the list of calls that a handler returns. The
  callbacks are the caller's code: the model assumes that they return and leave the
  controller alone.
\<close>

record Controller =
  mousemove :: bool
  press :: bool
  touches :: "vec2 js_object"
  twoFingerDrag :: bool
  pinch :: bool

datatype call =
    Mousemove "vec2 option" vec2
  | Press vec2
  | Pinch real
  | TwoFingerDrag vec2

text \<open>
  What the handlers need of their surroundings. \<open>global_t\<close>: lines 139 and 149 of
  \<open>controller.js\<close> assign the enumerated key to an identifier \<open>t\<close> that no enclosing scope
  declares (the \<open>const t\<close> of lines 119, 131 and 205 are local to other blocks). The file is
  an ES module, whose code is strict: the assignment throws a \<open>ReferenceError\<close> unless the
  global object has a writable property \<open>t\<close>. \<open>global_t\<close> says whether it has one.
\<close>

record Env =
  rect_left :: real
  rect_top :: real
  global_t :: bool

datatype js_error = ReferenceError | TypeError

definition touch_point :: "Env \<Rightarrow> Touch \<Rightarrow> vec2" where
  "touch_point env t = (clientX t - rect_left env, clientY t - rect_top env)"

definition pointDist :: "vec2 \<Rightarrow> vec2 \<Rightarrow> real" where
  "pointDist a b =
     (let v = (fst b - fst a, snd b - snd a) in sqrt ((fst v)\<^sup>2 + (snd v)\<^sup>2))"

definition onTouchStart :: "Env \<Rightarrow> Controller \<Rightarrow> TouchEvent \<Rightarrow> Controller \<times> call list" where
  "onTouchStart env c evt =
     foldl (\<lambda>(c, calls) t.
              (let c' = c\<lparr>touches := obj_put (touch_identifier t) (touch_point env t) (touches c)\<rparr>
               in (c', if length (changedTouches evt) = 1 \<and> press c
                       then calls @ [Press (touch_point env t)] else calls)))
       (c, []) (changedTouches evt)"

text \<open>
  Lines 155 to 179: the motion vectors of the first two old and new touches, and the two
  alignments of each kind.
\<close>

definition motionVectors :: "vec2 \<Rightarrow> vec2 \<Rightarrow> vec2 \<Rightarrow> vec2 \<Rightarrow> vec2 \<times> vec2" where
  "motionVectors old0 old1 new0 new1 =
     ((fst new0 - fst old0, snd new0 - snd old0), (fst new1 - fst old1, snd new1 - snd old1))"

definition pinchMotion :: "vec2 \<Rightarrow> vec2 \<Rightarrow> vec2 \<Rightarrow> vec2 \<Rightarrow> real \<times> real" where
  "pinchMotion old0 old1 new0 new1 =
     (let mv = motionVectors old0 old1 new0 new1;
          motionDirs = (vec2_normalize (fst mv), vec2_normalize (snd mv));
          pinchAxis = vec2_normalize (fst old1 - fst old0, snd old1 - snd old0)
      in (vec2_dot pinchAxis (fst motionDirs), vec2_dot pinchAxis (snd motionDirs)))"

definition panMotion :: "vec2 \<Rightarrow> vec2 \<Rightarrow> vec2 \<Rightarrow> vec2 \<Rightarrow> real \<times> real" where
  "panMotion old0 old1 new0 new1 =
     (let mv = motionVectors old0 old1 new0 new1;
          motionDirs = (vec2_normalize (fst mv), vec2_normalize (snd mv));
          panAxis = vec2_normalize (vec2_lerp (fst mv) (snd mv) (1 / 2))
      in (vec2_dot panAxis (fst motionDirs), vec2_dot panAxis (snd motionDirs)))"

text \<open>Lines 184 to 199: the callback that the move of two touches invokes, if any.\<close>

definition classify :: "Controller \<Rightarrow> vec2 \<Rightarrow> vec2 \<Rightarrow> vec2 \<Rightarrow> vec2 \<Rightarrow> call list" where
  "classify c old0 old1 new0 new1 =
     (let pinchM = pinchMotion old0 old1 new0 new1;
          panM = panMotion old0 old1 new0 new1
      in if pinch c \<and> \<bar>fst pinchM\<bar> > 1 / 2 \<and> \<bar>snd pinchM\<bar> > 1 / 2
            \<and> sgn (fst pinchM) \<noteq> sgn (snd pinchM)
         then (let oldDist = pointDist old0 old1;
                   newDist = pointDist new0 new1
               in [Pinch (newDist - oldDist)])
         else if twoFingerDrag c \<and> \<bar>fst panM\<bar> > 1 / 2 \<and> \<bar>snd panM\<bar> > 1 / 2
            \<and> sgn (fst panM) = sgn (snd panM)
         then (let mv = motionVectors old0 old1 new0 new1;
                   panAmount = vec2_lerp (fst mv) (snd mv) (1 / 2)
               in [TwoFingerDrag (fst panAmount, - snd panAmount)])
         else [])"

text \<open>Lines 203 to 207: the table takes the positions of all changed touches.\<close>

definition update_touches :: "Env \<Rightarrow> Controller \<Rightarrow> TouchEvent \<Rightarrow> Controller" where
  "update_touches env c evt =
     c\<lparr>touches := foldl (\<lambda>tbl t. obj_put (touch_identifier t) (touch_point env t) tbl)
                      (touches c) (changedTouches evt)\<rparr>"

text \<open>
  \<open>onTouchMove\<close>. It returns the controller and the calls made, or the error thrown.
  Reading \<open>[0]\<close> of an entry that a list does not have (line 120 for an event without
  touches, lines 156 to 159 for fewer than two old or new touches) throws a \<open>TypeError\<close>.
\<close>

definition onTouchMove ::
  "Env \<Rightarrow> Controller \<Rightarrow> TouchEvent \<Rightarrow> js_error + (Controller \<times> call list)" where
  "onTouchMove env c evt =
     (let numTouches = length (touches c)
      in if numTouches = 1 then
           (if mousemove c then
              (case changedTouches evt of
                 [] \<Rightarrow> Inl TypeError
               | t # _ \<Rightarrow>
                   (let prevTouch = map_of (touches c) (touch_identifier t);
                        curTouch = touch_point env t
                    in Inr (update_touches env c evt, [Mousemove prevTouch curTouch])))
            else Inr (update_touches env c evt, []))
         else
           (let curTouches = foldl (\<lambda>tbl t. obj_put (touch_identifier t) (touch_point env t) tbl)
                               [] (changedTouches evt)
            in if touches c \<noteq> [] \<and> \<not> global_t env then Inl ReferenceError
               else
                 (let curTouches = foldl (\<lambda>cur (t, p). if \<not> obj_has cur t
                                                        then obj_put t p cur else cur)
                                     curTouches (touches c);
                      oldTouches = map snd (touches c)
                  in if curTouches \<noteq> [] \<and> \<not> global_t env then Inl ReferenceError
                     else
                       (let newTouches = map snd curTouches
                        in case (oldTouches, newTouches) of
                             (old0 # old1 # _, new0 # new1 # _) \<Rightarrow>
                               Inr (update_touches env c evt, classify c old0 old1 new0 new1)
                           | _ \<Rightarrow> Inl TypeError))))"

definition onTouchEnd :: "Controller \<Rightarrow> TouchEvent \<Rightarrow> Controller" where
  "onTouchEnd c evt =
     c\<lparr>touches := foldl (\<lambda>tbl t. obj_delete (touch_identifier t) tbl)
                      (touches c) (changedTouches evt)\<rparr>"

section \<open>Statements and examples\<close>

text \<open>
  What claim C4 says of a state: \<open>camera\<close> is the product
  \<open>translation \<cdot> rotation \<cdot> centerTranslation\<close>, and \<open>camera \<cdot> invCamera\<close> is the identity
  matrix if \<open>camera\<close> is invertible.
\<close>

definition camera_current :: "ArcballCamera \<Rightarrow> bool" where
  "camera_current s \<longleftrightarrow>
     camera s =
       mat4_mul (translation s) (mat4_mul (mat4_fromQuat (rotation s)) (centerTranslation s)) \<and>
     (mat4_determinant (camera s) \<noteq> 0 \<longrightarrow>
        mat4_mul (camera s) (invCamera s) = mat4_identity)"

text \<open>
  A camera for concrete evaluations: no rotation, the pivot at the origin, the eye five
  units in front of it, a surface of 100 by 100 pixels.
\<close>

definition example_camera :: ArcballCamera where
  "example_camera = updateCameraMatrix
     \<lparr>zoomSpeed = 1,
      invScreen = (1 / 100, 1 / 100),
      centerTranslation = mat4_translation (0, 0, 0),
      translation = mat4_translation (0, 0, - 5),
      rotation = Quat 0 0 0 1,
      camera = mat4_create,
      invCamera = mat4_create\<rparr>"

text \<open>
  The invariant of the camera's data model: the rotation is a unit quaternion,
  \<open>translation\<close> is a translation along Z and \<open>centerTranslation\<close> is a translation,
  and \<open>camera\<close> and \<open>invCamera\<close> are the ones that \<open>updateCameraMatrix\<close> computes from
  the other fields.
\<close>

definition camera_invariant :: "ArcballCamera \<Rightarrow> bool" where
  "camera_invariant s \<longleftrightarrow>
     quat_len (rotation s) = 1 \<and>
     translation s = mat4_translation (0, 0, m14 (translation s)) \<and>
     centerTranslation s =
       mat4_translation (m12 (centerTranslation s), m13 (centerTranslation s),
                         m14 (centerTranslation s)) \<and>
     camera s =
       mat4_mul (translation s) (mat4_mul (mat4_fromQuat (rotation s)) (centerTranslation s)) \<and>
     invCamera s = mat4_invert (camera s)"

text \<open>
  What claim C1 says \<open>rotate\<close> computes, for comparison with \<open>rotate_cam\<close>: both
  coordinates of the previous point are taken from \<open>prevMouse\<close>.
\<close>

definition rotate_claimed :: "ArcballCamera \<Rightarrow> vec2 \<Rightarrow> vec2 \<Rightarrow> ArcballCamera" where
  "rotate_claimed s prevMouse curMouse =
     (let mPrev = (clamp (fst prevMouse * 2 * fst (invScreen s) - 1) (- 1) 1,
                   clamp (1 - snd prevMouse * 2 * snd (invScreen s)) (- 1) 1);
          mCur = (clamp (fst curMouse * 2 * fst (invScreen s) - 1) (- 1) 1,
                  clamp (1 - snd curMouse * 2 * snd (invScreen s)) (- 1) 1);
          curBall = screenToArcball mCur;
          prevBall = screenToArcball mPrev
      in updateCameraMatrix
           (s\<lparr>rotation := quat_mul curBall (quat_mul prevBall (rotation s))\<rparr>))"

text \<open>
  The alignment conditions of claims C2, C8 and C9 in the claims' words: both alignments
  exceed 0.5 in magnitude and have opposite signs (pinch), or the same sign (pan).
\<close>

definition pinch_aligned :: "vec2 \<Rightarrow> vec2 \<Rightarrow> vec2 \<Rightarrow> vec2 \<Rightarrow> bool" where
  "pinch_aligned old0 old1 new0 new1 \<longleftrightarrow>
     (let a = fst (pinchMotion old0 old1 new0 new1);
          b = snd (pinchMotion old0 old1 new0 new1)
      in \<bar>a\<bar> > 1 / 2 \<and> \<bar>b\<bar> > 1 / 2 \<and> (0 < a \<and> b < 0 \<or> a < 0 \<and> 0 < b))"

definition pan_aligned :: "vec2 \<Rightarrow> vec2 \<Rightarrow> vec2 \<Rightarrow> vec2 \<Rightarrow> bool" where
  "pan_aligned old0 old1 new0 new1 \<longleftrightarrow>
     (let a = fst (panMotion old0 old1 new0 new1);
          b = snd (panMotion old0 old1 new0 new1)
      in \<bar>a\<bar> > 1 / 2 \<and> \<bar>b\<bar> > 1 / 2 \<and> (0 < a \<and> 0 < b \<or> a < 0 \<and> b < 0))"

text \<open>
  A controller with all callbacks registered that tracks the touches \<open>0\<close> and \<open>1\<close> at
  two given positions, a touch of an event, and a canvas whose bounding rectangle starts
  at the origin.
\<close>

definition two_touches :: "vec2 \<Rightarrow> vec2 \<Rightarrow> Controller" where
  "two_touches p0 p1 =
     \<lparr>mousemove = True, press = True, touches = [(0, p0), (1, p1)],
      twoFingerDrag = True, pinch = True\<rparr>"

definition touch_at :: "int \<Rightarrow> real \<Rightarrow> real \<Rightarrow> Touch" where
  "touch_at i x y = \<lparr>touch_identifier = i, clientX = x, clientY = y\<rparr>"

definition canvas_env :: "bool \<Rightarrow> Env" where
  "canvas_env gt = \<lparr>rect_left = 0, rect_top = 0, global_t = gt\<rparr>"

section \<open>Zoom\<close>

lemma m14_set14: "m14 (mat4_set14 m v) = v"
  by (cases m) simp

lemma translation_updateCameraMatrix: "translation (updateCameraMatrix s) = translation s"
  by (simp add: updateCameraMatrix_def Let_def)

lemma zoom_depth: "m14 (translation (zoom s amount)) \<le> - (2 / 10)"
  by (simp add: zoom_def Let_def translation_updateCameraMatrix m14_set14)

text \<open>
  Claim C3. After a zoom call the depth component \<open>translation[14]\<close> is at most \<open>-0.2\<close>,
  whatever the state before the call and whatever the amount; hence it is at most
  \<open>-0.2\<close> after every call of any sequence of zoom calls, here the call with amount
  \<open>a\<close> followed by the calls with the amounts \<open>as\<close>.
\<close>

theorem zoom_clamp:
  "m14 (translation (foldl zoom (zoom s a) as)) \<le> - (2 / 10)"
proof (induction as rule: rev_induct)
  case Nil
  show ?case using zoom_depth [of s a] by simp
next
  case (snoc x xs)
  show ?case using zoom_depth [of "foldl zoom (zoom s a) xs" x] by simp
qed

section \<open>The frame of zoom and pan\<close>

lemma updateCameraMatrix_frame:
  "rotation (updateCameraMatrix s) = rotation s"
  "centerTranslation (updateCameraMatrix s) = centerTranslation s"
  "zoomSpeed (updateCameraMatrix s) = zoomSpeed s"
  "invScreen (updateCameraMatrix s) = invScreen s"
  by (simp_all add: updateCameraMatrix_def Let_def)

text \<open>
  Claim C10. \<open>zoom\<close> leaves \<open>rotation\<close>, \<open>centerTranslation\<close>, \<open>zoomSpeed\<close> and \<open>invScreen\<close>
  as they were, and \<open>pan\<close> leaves \<open>rotation\<close>, \<open>translation\<close>, \<open>zoomSpeed\<close> and
  \<open>invScreen\<close> as they were: of the seven fields, \<open>zoom\<close> writes only \<open>translation\<close>,
  \<open>camera\<close> and \<open>invCamera\<close>, and \<open>pan\<close> writes only \<open>centerTranslation\<close>, \<open>camera\<close> and
  \<open>invCamera\<close>.
\<close>

theorem zoom_pan_frame:
  "rotation (zoom s amount) = rotation s \<and>
   centerTranslation (zoom s amount) = centerTranslation s \<and>
   zoomSpeed (zoom s amount) = zoomSpeed s \<and>
   invScreen (zoom s amount) = invScreen s \<and>
   rotation (pan s mouseDelta) = rotation s \<and>
   translation (pan s mouseDelta) = translation s \<and>
   zoomSpeed (pan s mouseDelta) = zoomSpeed s \<and>
   invScreen (pan s mouseDelta) = invScreen s"
  by (simp add: zoom_def pan_def Let_def updateCameraMatrix_frame
      translation_updateCameraMatrix)

section \<open>The arcball projection\<close>

lemma vec2_normalize_outside:
  assumes "x * x + y * y > 1"
  shows "vec2_normalize (x, y) = (x / sqrt (x * x + y * y), y / sqrt (x * x + y * y))"
proof -
  have "sqrt (x * x + y * y) > 1" using assms by simp
  then have "sqrt (x * x + y * y) > 1 / 100000" by linarith
  then show ?thesis by (simp add: Let_def)
qed

lemma screenToArcball_inside:
  "x * x + y * y \<le> 1 \<Longrightarrow>
   screenToArcball (x, y) = Quat x y (sqrt (1 - (x * x + y * y))) 0"
  by (simp add: screenToArcball_def)

lemma screenToArcball_outside:
  assumes "x * x + y * y > 1"
  shows "screenToArcball (x, y) =
         Quat (x / sqrt (x * x + y * y)) (y / sqrt (x * x + y * y)) 0 0"
  using assms vec2_normalize_outside [OF assms]
  by (simp add: screenToArcball_def Let_def del: vec2_normalize.simps)

text \<open>
  Claim C6. \<open>screenToArcball\<close> is a function of its argument alone. For a point
  \<open>p = (x, y)\<close> with \<open>|p|\<^sup>2 \<le> 1\<close> it returns \<open>(x, y, sqrt (1 - |p|\<^sup>2), 0)\<close>; for a point with
  \<open>|p| > 1\<close> it returns \<open>(x / |p|, y / |p|, 0, 0)\<close>; and the centre \<open>(0, 0)\<close> is mapped to
  \<open>(0, 0, 1, 0)\<close>.
\<close>

theorem screenToArcball_cases:
  "(x * x + y * y \<le> 1 \<longrightarrow>
      screenToArcball (x, y) = Quat x y (sqrt (1 - (x * x + y * y))) 0) \<and>
   (sqrt (x * x + y * y) > 1 \<longrightarrow>
      screenToArcball (x, y) =
        Quat (x / sqrt (x * x + y * y)) (y / sqrt (x * x + y * y)) 0 0) \<and>
   screenToArcball (0, 0) = Quat 0 0 1 0"
  by (simp add: screenToArcball_inside screenToArcball_outside)

lemma sqrt_25: "sqrt 25 = 5"
  using real_sqrt_abs [of 5] by simp

theorem screenToArcball_cases_witness:
  "screenToArcball (3 / 5, 4 / 5) = Quat (3 / 5) (4 / 5) 0 0 \<and>
   screenToArcball (3, 4) = Quat (3 / 5) (4 / 5) 0 0"
proof -
  have inside: "(3 / 5) * (3 / 5) + (4 / 5) * (4 / 5) \<le> (1 :: real)" by simp
  have outside: "sqrt (3 * 3 + 4 * 4) > 1" by (simp add: sqrt_25)
  from inside screenToArcball_cases [of "3 / 5" "4 / 5"]
  have "screenToArcball (3 / 5, 4 / 5) = Quat (3 / 5) (4 / 5) 0 0" by simp
  moreover from outside screenToArcball_cases [of 3 4]
  have "screenToArcball (3, 4) = Quat (3 / 5) (4 / 5) 0 0" by (simp add: sqrt_25)
  ultimately show ?thesis by simp
qed

section \<open>The rotation stays a unit quaternion\<close>

lemma quat_len_mul: "quat_len (quat_mul a b) = quat_len a * quat_len b"
proof -
  obtain a0 a1 a2 a3 where a: "a = Quat a0 a1 a2 a3" by (cases a)
  obtain b0 b1 b2 b3 where b: "b = Quat b0 b1 b2 b3" by (cases b)
  have "(a0 * b3 + a3 * b0 + a1 * b2 - a2 * b1) * (a0 * b3 + a3 * b0 + a1 * b2 - a2 * b1)
      + (a1 * b3 + a3 * b1 + a2 * b0 - a0 * b2) * (a1 * b3 + a3 * b1 + a2 * b0 - a0 * b2)
      + (a2 * b3 + a3 * b2 + a0 * b1 - a1 * b0) * (a2 * b3 + a3 * b2 + a0 * b1 - a1 * b0)
      + (a3 * b3 - a0 * b0 - a1 * b1 - a2 * b2) * (a3 * b3 - a0 * b0 - a1 * b1 - a2 * b2)
      = (a0 * a0 + a1 * a1 + a2 * a2 + a3 * a3) * (b0 * b0 + b1 * b1 + b2 * b2 + b3 * b3)"
    by (simp add: algebra_simps)
  then show ?thesis
    by (simp add: a b quat_len_def real_sqrt_mult [symmetric])
qed

lemma screenToArcball_unit: "quat_len (screenToArcball p) = 1"
proof (cases p)
  case (Pair x y)
  show ?thesis
  proof (cases "x * x + y * y \<le> 1")
    case True
    then have "sqrt (1 - (x * x + y * y)) * sqrt (1 - (x * x + y * y)) = 1 - (x * x + y * y)"
      by simp
    then have "x * x + y * y + sqrt (1 - (x * x + y * y)) * sqrt (1 - (x * x + y * y)) = 1"
      by simp
    then show ?thesis
      by (simp add: Pair screenToArcball_inside [OF True] quat_len_def)
  next
    case False
    then have d: "x * x + y * y > 1" by simp
    define l where "l = sqrt (x * x + y * y)"
    have l2: "l * l = x * x + y * y" using d by (simp add: l_def)
    have l0: "l \<noteq> 0" using l2 d by auto
    have "x / l * (x / l) + y / l * (y / l) = (x * x + y * y) / (l * l)"
      by (simp add: add_divide_distrib)
    also have "\<dots> = (l * l) / (l * l)" by (simp only: l2)
    also have "\<dots> = 1" using l0 by simp
    finally have "sqrt (x / l * (x / l) + y / l * (y / l)) = 1" by simp
    then show ?thesis
      unfolding Pair screenToArcball_outside [OF d] quat_len_def l_def by simp
  qed
qed

lemma rotation_rotate_cam:
  "rotation (rotate_cam s prevMouse curMouse) =
   quat_mul
     (screenToArcball (clamp (fst curMouse * 2 * fst (invScreen s) - 1) (- 1) 1,
                       clamp (1 - snd curMouse * 2 * snd (invScreen s)) (- 1) 1))
     (quat_mul
        (screenToArcball (clamp (fst curMouse * 2 * fst (invScreen s) - 1) (- 1) 1,
                          clamp (1 - snd prevMouse * 2 * snd (invScreen s)) (- 1) 1))
        (rotation s))"
  by (simp add: rotate_cam_def Let_def updateCameraMatrix_frame)

lemma rotate_cam_unit:
  "quat_len (rotation s) = 1 \<Longrightarrow> quat_len (rotation (rotate_cam s p c)) = 1"
  by (simp add: rotation_rotate_cam quat_len_mul screenToArcball_unit)

text \<open>
  Claim C5. If the rotation is a unit quaternion when a sequence of \<open>rotate\<close> calls
  starts, it is a unit quaternion after the sequence, whatever the pairs of mouse
  positions are; since every prefix of a sequence is a sequence, it is one after every
  call. No step renormalises: both arcball points are unit quaternions and the length of
  a product is the product of the lengths.
\<close>

theorem rotate_keeps_unit:
  "quat_len (rotation s) = 1 \<Longrightarrow>
   quat_len (rotation (foldl (\<lambda>s (p, c). rotate_cam s p c) s moves)) = 1"
  by (induction moves rule: rev_induct) (auto simp add: rotate_cam_unit)

theorem rotate_keeps_unit_witness:
  "quat_len (rotation example_camera) = 1 \<and>
   quat_len (rotation (foldl (\<lambda>s (p, c). rotate_cam s p c) example_camera
     [((10, 20), (30, 40)), ((30, 40), (70, 10))])) = 1"
proof -
  have h: "quat_len (rotation example_camera) = 1"
    by (simp add: example_camera_def updateCameraMatrix_frame quat_len_def)
  from h rotate_keeps_unit [OF h, of "[((10, 20), (30, 40)), ((30, 40), (70, 10))]"]
  show ?thesis by blast
qed

section \<open>The camera matrix and its inverse\<close>

lemmas minor_defs = minor00_def minor01_def minor02_def minor03_def minor10_def minor11_def
  minor12_def minor13_def minor20_def minor21_def minor22_def minor23_def minor30_def
  minor31_def minor32_def minor33_def

text \<open>
  The entries of a row times the signed minors of the same row give the determinant;
  times the signed minors of another row they give zero.
\<close>

lemma cofactor_row0_0:
  "m0 a * minor00 a - m4 a * minor01 a + m8 a * minor02 a - m12 a * minor03 a = mat4_determinant a"
  by (cases a) (simp add: minor_defs det3_def mat4_determinant_def algebra_simps)

lemma cofactor_row1_0:
  "m1 a * minor00 a - m5 a * minor01 a + m9 a * minor02 a - m13 a * minor03 a = 0"
  by (cases a) (simp add: minor_defs det3_def mat4_determinant_def algebra_simps)

lemma cofactor_row2_0:
  "m2 a * minor00 a - m6 a * minor01 a + m10 a * minor02 a - m14 a * minor03 a = 0"
  by (cases a) (simp add: minor_defs det3_def mat4_determinant_def algebra_simps)

lemma cofactor_row3_0:
  "m3 a * minor00 a - m7 a * minor01 a + m11 a * minor02 a - m15 a * minor03 a = 0"
  by (cases a) (simp add: minor_defs det3_def mat4_determinant_def algebra_simps)

lemma cofactor_row0_1:
  "- (m0 a * minor10 a) + m4 a * minor11 a - m8 a * minor12 a + m12 a * minor13 a = 0"
  by (cases a) (simp add: minor_defs det3_def mat4_determinant_def algebra_simps)

lemma cofactor_row1_1:
  "- (m1 a * minor10 a) + m5 a * minor11 a - m9 a * minor12 a + m13 a * minor13 a = mat4_determinant a"
  by (cases a) (simp add: minor_defs det3_def mat4_determinant_def algebra_simps)

lemma cofactor_row2_1:
  "- (m2 a * minor10 a) + m6 a * minor11 a - m10 a * minor12 a + m14 a * minor13 a = 0"
  by (cases a) (simp add: minor_defs det3_def mat4_determinant_def algebra_simps)

lemma cofactor_row3_1:
  "- (m3 a * minor10 a) + m7 a * minor11 a - m11 a * minor12 a + m15 a * minor13 a = 0"
  by (cases a) (simp add: minor_defs det3_def mat4_determinant_def algebra_simps)

lemma cofactor_row0_2:
  "m0 a * minor20 a - m4 a * minor21 a + m8 a * minor22 a - m12 a * minor23 a = 0"
  by (cases a) (simp add: minor_defs det3_def mat4_determinant_def algebra_simps)

lemma cofactor_row1_2:
  "m1 a * minor20 a - m5 a * minor21 a + m9 a * minor22 a - m13 a * minor23 a = 0"
  by (cases a) (simp add: minor_defs det3_def mat4_determinant_def algebra_simps)

lemma cofactor_row2_2:
  "m2 a * minor20 a - m6 a * minor21 a + m10 a * minor22 a - m14 a * minor23 a = mat4_determinant a"
  by (cases a) (simp add: minor_defs det3_def mat4_determinant_def algebra_simps)

lemma cofactor_row3_2:
  "m3 a * minor20 a - m7 a * minor21 a + m11 a * minor22 a - m15 a * minor23 a = 0"
  by (cases a) (simp add: minor_defs det3_def mat4_determinant_def algebra_simps)

lemma cofactor_row0_3:
  "- (m0 a * minor30 a) + m4 a * minor31 a - m8 a * minor32 a + m12 a * minor33 a = 0"
  by (cases a) (simp add: minor_defs det3_def mat4_determinant_def algebra_simps)

lemma cofactor_row1_3:
  "- (m1 a * minor30 a) + m5 a * minor31 a - m9 a * minor32 a + m13 a * minor33 a = 0"
  by (cases a) (simp add: minor_defs det3_def mat4_determinant_def algebra_simps)

lemma cofactor_row2_3:
  "- (m2 a * minor30 a) + m6 a * minor31 a - m10 a * minor32 a + m14 a * minor33 a = 0"
  by (cases a) (simp add: minor_defs det3_def mat4_determinant_def algebra_simps)

lemma cofactor_row3_3:
  "- (m3 a * minor30 a) + m7 a * minor31 a - m11 a * minor32 a + m15 a * minor33 a = mat4_determinant a"
  by (cases a) (simp add: minor_defs det3_def mat4_determinant_def algebra_simps)

lemmas cofactor_rows = cofactor_row0_0 cofactor_row1_0 cofactor_row2_0 cofactor_row3_0
  cofactor_row0_1 cofactor_row1_1 cofactor_row2_1 cofactor_row3_1
  cofactor_row0_2 cofactor_row1_2 cofactor_row2_2 cofactor_row3_2
  cofactor_row0_3 cofactor_row1_3 cofactor_row2_3 cofactor_row3_3

lemma signed_sum_even:
  "x0 * (d * y0) + x1 * - (d * y1) + x2 * (d * y2) + x3 * - (d * y3) =
   d * (x0 * y0 - x1 * y1 + x2 * y2 - x3 * y3)" for d :: real
  by (simp add: algebra_simps)

lemma signed_sum_odd:
  "x0 * - (d * y0) + x1 * (d * y1) + x2 * - (d * y2) + x3 * (d * y3) =
   d * (- (x0 * y0) + x1 * y1 - x2 * y2 + x3 * y3)" for d :: real
  by (simp add: algebra_simps)

lemma mat4_mul_invert:
  assumes "mat4_determinant a \<noteq> 0"
  shows "mat4_mul a (mat4_invert a) = mat4_identity"
  unfolding mat4_mul_def mat4_invert_def mat4_identity_def Let_def mat4.sel
    signed_sum_even signed_sum_odd cofactor_rows
  using assms by simp

lemma mat4_mul_assoc: "mat4_mul (mat4_mul a b) c = mat4_mul a (mat4_mul b c)"
  by (simp add: mat4_mul_def algebra_simps)

lemma updateCameraMatrix_current: "camera_current (updateCameraMatrix s)"
  by (simp add: camera_current_def updateCameraMatrix_def Let_def mat4_mul_invert)

text \<open>
  Claim C4. After the constructor and after \<open>rotate\<close>, \<open>zoom\<close> and \<open>pan\<close>, the operations
  that end with \<open>updateCameraMatrix\<close>, \<open>camera\<close> is the product of \<open>translation\<close>, the
  matrix of \<open>rotation\<close> and \<open>centerTranslation\<close>, and \<open>camera \<cdot> invCamera\<close> is the identity
  matrix whenever \<open>camera\<close> is invertible, that is, has a determinant other than zero.
\<close>

theorem camera_current_after_operations:
  "camera_current (ArcballCamera_new quat_fromMat quat_normalize eye center up zs dims) \<and>
   camera_current (rotate_cam s prevMouse curMouse) \<and>
   camera_current (zoom s amount) \<and>
   camera_current (pan s mouseDelta)"
  by (simp add: ArcballCamera_new_def rotate_cam_def zoom_def pan_def Let_def
      updateCameraMatrix_current split: prod.split)

theorem camera_current_after_operations_witness:
  "mat4_determinant (camera (zoom example_camera 100)) \<noteq> 0 \<and>
   camera (zoom example_camera 100) = mat4_translation (0, 0, - 4) \<and>
   mat4_mul (camera (zoom example_camera 100)) (invCamera (zoom example_camera 100)) =
     mat4_identity"
proof -
  have c: "camera (zoom example_camera 100) = mat4_translation (0, 0, - 4)"
    by (simp add: zoom_def example_camera_def updateCameraMatrix_def Let_def mat4_mul_def)
  have d: "mat4_determinant (camera (zoom example_camera 100)) \<noteq> 0"
    unfolding c by (simp add: mat4_determinant_def minor_defs det3_def)
  from camera_current_after_operations [of _ _ _ _ _ _ _ example_camera _ _ 100]
  have "camera_current (zoom example_camera 100)" by simp
  then have "mat4_determinant (camera (zoom example_camera 100)) \<noteq> 0 \<longrightarrow>
      mat4_mul (camera (zoom example_camera 100)) (invCamera (zoom example_camera 100)) =
        mat4_identity"
    unfolding camera_current_def by blast
  with c d show ?thesis by blast
qed

section \<open>Pan and its inverse\<close>

lemma mat4_fromQuat_affine:
  "m3 (mat4_fromQuat q) = 0" "m7 (mat4_fromQuat q) = 0" "m11 (mat4_fromQuat q) = 0"
  "m12 (mat4_fromQuat q) = 0" "m13 (mat4_fromQuat q) = 0" "m14 (mat4_fromQuat q) = 0"
  "m15 (mat4_fromQuat q) = 1"
  by (cases q; simp add: Let_def)+

text \<open>The camera matrix of a translation, a rotation and a pivot translation.\<close>

lemma camera_form:
  "mat4_mul (mat4_translation (0, 0, tz))
     (mat4_mul (mat4_fromQuat q) (mat4_translation (cx, cy, cz))) =
   Mat4 (m0 (mat4_fromQuat q)) (m1 (mat4_fromQuat q)) (m2 (mat4_fromQuat q)) 0
        (m4 (mat4_fromQuat q)) (m5 (mat4_fromQuat q)) (m6 (mat4_fromQuat q)) 0
        (m8 (mat4_fromQuat q)) (m9 (mat4_fromQuat q)) (m10 (mat4_fromQuat q)) 0
        (m0 (mat4_fromQuat q) * cx + m4 (mat4_fromQuat q) * cy + m8 (mat4_fromQuat q) * cz)
        (m1 (mat4_fromQuat q) * cx + m5 (mat4_fromQuat q) * cy + m9 (mat4_fromQuat q) * cz)
        (m2 (mat4_fromQuat q) * cx + m6 (mat4_fromQuat q) * cy + m10 (mat4_fromQuat q) * cz + tz)
        1"
  by (simp add: mat4_mul_def mat4_fromQuat_affine)

text \<open>
  The first two columns of the inverse of an affine matrix do not depend on the
  translation column of the matrix.
\<close>

lemma invert_affine_columns:
  fixes a b c d e f g h i p q r p' q' r' :: real
  defines "K \<equiv> mat4_invert (Mat4 a b c 0 d e f 0 g h i 0 p q r 1)"
    and "K' \<equiv> mat4_invert (Mat4 a b c 0 d e f 0 g h i 0 p' q' r' 1)"
  shows "m0 K = m0 K'" "m1 K = m1 K'" "m2 K = m2 K'"
    "m4 K = m4 K'" "m5 K = m5 K'" "m6 K = m6 K'"
  by (simp_all add: K_def K'_def mat4_invert_def mat4_determinant_def minor_defs det3_def)

lemma translation_mul_translation:
  "mat4_mul (mat4_translation (x, y, z)) (mat4_translation (cx, cy, cz)) =
   mat4_translation (x + cx, y + cy, z + cz)"
  by (simp add: mat4_mul_def)

lemma pan_round_trip_state:
  assumes inv: "camera_invariant s"
  shows "pan (pan s mouseDelta) (- fst mouseDelta, - snd mouseDelta) = s"
proof -
  define q where "q = rotation s"
  define tz where "tz = m14 (translation s)"
  define cx where "cx = m12 (centerTranslation s)"
  define cy where "cy = m13 (centerTranslation s)"
  define cz where "cz = m14 (centerTranslation s)"
  define dx where "dx = fst mouseDelta * fst (invScreen s) * \<bar>tz\<bar>"
  define dy where "dy = snd mouseDelta * snd (invScreen s) * \<bar>tz\<bar>"
  define wx where "wx = m0 (invCamera s) * dx + m4 (invCamera s) * dy"
  define wy where "wy = m1 (invCamera s) * dx + m5 (invCamera s) * dy"
  define wz where "wz = m2 (invCamera s) * dx + m6 (invCamera s) * dy"
  define K0 where "K0 = mat4_mul (mat4_translation (0, 0, tz))
    (mat4_mul (mat4_fromQuat q) (mat4_translation (cx, cy, cz)))"
  define K1 where "K1 = mat4_mul (mat4_translation (0, 0, tz))
    (mat4_mul (mat4_fromQuat q) (mat4_translation (wx + cx, wy + cy, wz + cz)))"
  have T: "translation s = mat4_translation (0, 0, tz)"
    using inv by (simp add: camera_invariant_def tz_def)
  have C: "centerTranslation s = mat4_translation (cx, cy, cz)"
    using inv by (simp add: camera_invariant_def cx_def cy_def cz_def)
  have K: "camera s = K0"
    using inv T C by (simp add: camera_invariant_def K0_def q_def)
  have IC: "invCamera s = mat4_invert K0"
    using inv K by (simp add: camera_invariant_def)
  have tz14: "m14 (mat4_translation (0, 0, tz)) = tz" by simp
  note [simp] = tz14
  have p1: "pan s mouseDelta =
      s\<lparr>centerTranslation := mat4_translation (wx + cx, wy + cy, wz + cz),
        camera := K1, invCamera := mat4_invert K1\<rparr>"
    unfolding pan_def updateCameraMatrix_def Let_def K1_def
    by (simp add: T C vec4_transformMat4_def translation_mul_translation
        wx_def wy_def wz_def dx_def dy_def q_def del: mat4_translation.simps)
  have cols: "m0 (mat4_invert K1) = m0 (invCamera s)" "m1 (mat4_invert K1) = m1 (invCamera s)"
    "m2 (mat4_invert K1) = m2 (invCamera s)" "m4 (mat4_invert K1) = m4 (invCamera s)"
    "m5 (mat4_invert K1) = m5 (invCamera s)" "m6 (mat4_invert K1) = m6 (invCamera s)"
    unfolding IC K0_def K1_def camera_form by (rule invert_affine_columns)+
  have p2: "pan (pan s mouseDelta) (- fst mouseDelta, - snd mouseDelta) =
      s\<lparr>centerTranslation := mat4_translation (cx, cy, cz),
        camera := K0, invCamera := mat4_invert K0\<rparr>"
    unfolding p1 unfolding pan_def updateCameraMatrix_def Let_def K0_def
    by (simp add: T cols vec4_transformMat4_def translation_mul_translation
        wx_def wy_def wz_def dx_def dy_def q_def del: mat4_translation.simps)
  show ?thesis unfolding p2 using C K IC by simp
qed

lemma quat_len_unit: "quat_len (Quat x y z w) = 1 \<longleftrightarrow> x * x + y * y + z * z + w * w = 1"
  by (simp add: quat_len_def)

lemma camera_determinant:
  assumes "quat_len q = 1"
  shows "mat4_determinant (mat4_mul (mat4_translation (0, 0, tz))
     (mat4_mul (mat4_fromQuat q) (mat4_translation (cx, cy, cz)))) = 1"
proof -
  obtain x y z w where q: "q = Quat x y z w" by (cases q)
  have n: "x * x + y * y + z * z + w * w = 1" using assms by (simp add: q quat_len_unit)
  have "(1 - y * (y + y) - z * (z + z)) *
        ((1 - x * (x + x) - z * (z + z)) * (1 - x * (x + x) - y * (y + y)) -
         (z * (y + y) - w * (x + x)) * (z * (y + y) + w * (x + x))) -
        (y * (x + x) - w * (z + z)) *
        ((y * (x + x) + w * (z + z)) * (1 - x * (x + x) - y * (y + y)) -
         (z * (y + y) - w * (x + x)) * (z * (x + x) - w * (y + y))) +
        (z * (x + x) + w * (y + y)) *
        ((y * (x + x) + w * (z + z)) * (z * (y + y) + w * (x + x)) -
         (1 - x * (x + x) - z * (z + z)) * (z * (x + x) - w * (y + y))) = 1"
    using n by algebra
  then show ?thesis
    unfolding camera_form
    by (simp add: q mat4_determinant_def minor_defs det3_def Let_def algebra_simps)
qed

text \<open>
  The constructor establishes the invariant when the quaternion it stores has length one,
  and every operation keeps it; \<open>camera\<close> then has determinant one.
\<close>

lemma invert_translation:
  "mat4_invert (mat4_translation (x, y, z)) = mat4_translation (- x, - y, - z)"
  by (simp add: mat4_invert_def mat4_determinant_def minor_defs det3_def)

lemma updateCameraMatrix_invariant:
  assumes "quat_len (rotation s) = 1"
    and "translation s = mat4_translation (0, 0, tz)"
    and "centerTranslation s = mat4_translation (cx, cy, cz)"
  shows "camera_invariant (updateCameraMatrix s)"
  using assms by (simp add: camera_invariant_def updateCameraMatrix_def Let_def)

lemma camera_invariant_new:
  assumes "quat_len (rotation
      (ArcballCamera_new quat_fromMat quat_normalize eye center up zs dims)) = 1"
  shows "camera_invariant
      (ArcballCamera_new quat_fromMat quat_normalize eye center up zs dims)"
proof (cases center)
  case (fields c0 c1 c2)
  show ?thesis
    using assms unfolding ArcballCamera_new_def Let_def fields invert_translation
    by (intro updateCameraMatrix_invariant) (simp_all add: updateCameraMatrix_frame)
qed

lemma camera_invariant_rotate:
  assumes "camera_invariant s"
  shows "camera_invariant (rotate_cam s prevMouse curMouse)"
proof -
  from assms have T: "translation s = mat4_translation (0, 0, m14 (translation s))"
    and C: "centerTranslation s = mat4_translation
      (m12 (centerTranslation s), m13 (centerTranslation s), m14 (centerTranslation s))"
    and q: "quat_len (rotation s) = 1"
    by (simp_all add: camera_invariant_def)
  show ?thesis
    unfolding rotate_cam_def Let_def
    by (rule updateCameraMatrix_invariant [where tz = "m14 (translation s)"
          and cx = "m12 (centerTranslation s)" and cy = "m13 (centerTranslation s)"
          and cz = "m14 (centerTranslation s)"])
       (use T C q in \<open>simp_all add: quat_len_mul screenToArcball_unit\<close>)
qed

lemma camera_invariant_zoom:
  assumes "camera_invariant s"
  shows "camera_invariant (zoom s amount)"
proof -
  define tz where "tz = m14 (translation s)"
  define z where "z = amount * snd (invScreen s) * zoomSpeed s"
  from assms have T: "translation s = mat4_translation (0, 0, tz)"
    and C: "centerTranslation s = mat4_translation
      (m12 (centerTranslation s), m13 (centerTranslation s), m14 (centerTranslation s))"
    and q: "quat_len (rotation s) = 1"
    by (simp_all add: camera_invariant_def tz_def)
  have mul: "mat4_mul (mat4_translation (0, 0, z)) (translation s) =
      mat4_translation (0, 0, z + tz)"
    unfolding T translation_mul_translation by simp
  show ?thesis
    unfolding zoom_def Let_def z_def [symmetric] mul
    by (rule updateCameraMatrix_invariant [where
          tz = "if z + tz \<ge> - (2 / 10) then - (2 / 10) else z + tz"
          and cx = "m12 (centerTranslation s)" and cy = "m13 (centerTranslation s)"
          and cz = "m14 (centerTranslation s)"])
       (use C q in \<open>simp_all\<close>)
qed

lemma camera_invariant_pan:
  assumes "camera_invariant s"
  shows "camera_invariant (pan s mouseDelta)"
proof -
  define cx where "cx = m12 (centerTranslation s)"
  define cy where "cy = m13 (centerTranslation s)"
  define cz where "cz = m14 (centerTranslation s)"
  from assms have T: "translation s = mat4_translation (0, 0, m14 (translation s))"
    and C: "centerTranslation s = mat4_translation (cx, cy, cz)"
    and q: "quat_len (rotation s) = 1"
    by (simp_all add: camera_invariant_def cx_def cy_def cz_def)
  show ?thesis
    unfolding pan_def Let_def C translation_mul_translation
    by (rule updateCameraMatrix_invariant [where tz = "m14 (translation s)"])
       (use T q in \<open>simp_all\<close>)
qed

lemma camera_invariant_determinant:
  assumes "camera_invariant s"
  shows "mat4_determinant (camera s) = 1"
proof -
  from assms have T: "translation s = mat4_translation (0, 0, m14 (translation s))"
    and C: "centerTranslation s = mat4_translation
      (m12 (centerTranslation s), m13 (centerTranslation s), m14 (centerTranslation s))"
    and q: "quat_len (rotation s) = 1"
    and K: "camera s = mat4_mul (translation s)
      (mat4_mul (mat4_fromQuat (rotation s)) (centerTranslation s))"
    by (simp_all add: camera_invariant_def)
  show ?thesis
    using camera_determinant [OF q, of "m14 (translation s)" "m12 (centerTranslation s)"
        "m13 (centerTranslation s)" "m14 (centerTranslation s)"] K T C
    by metis
qed

lemma example_camera_invariant: "camera_invariant example_camera"
  unfolding example_camera_def
  by (rule updateCameraMatrix_invariant [where tz = "- 5" and cx = 0 and cy = 0 and cz = 0])
     (simp_all add: quat_len_def)

text \<open>
  Claim C7. In a camera state that satisfies the invariant of the data model, which the
  constructor establishes and \<open>rotate\<close>, \<open>zoom\<close> and \<open>pan\<close> keep, \<open>pan\<close> with a pixel delta
  followed by \<open>pan\<close> with the negated delta gives back the state before the first call:
  \<open>centerTranslation\<close>, and with it \<open>camera\<close> and \<open>invCamera\<close>, have the values they had,
  and \<open>pan\<close> does not write \<open>translation\<close> and \<open>rotation\<close>. The invariant makes \<open>camera\<close>
  invertible, so no division by zero occurs in either call.
\<close>

theorem pan_round_trip:
  assumes "camera_invariant s"
  shows "centerTranslation (pan (pan s mouseDelta) (- fst mouseDelta, - snd mouseDelta)) =
           centerTranslation s \<and>
         translation (pan s mouseDelta) = translation s \<and>
         rotation (pan s mouseDelta) = rotation s \<and>
         pan (pan s mouseDelta) (- fst mouseDelta, - snd mouseDelta) = s \<and>
         mat4_determinant (camera s) \<noteq> 0 \<and>
         mat4_determinant (camera (pan s mouseDelta)) \<noteq> 0"
  using pan_round_trip_state [OF assms, of mouseDelta]
    camera_invariant_determinant [OF assms]
    camera_invariant_determinant [OF camera_invariant_pan [OF assms, of mouseDelta]]
  by (simp add: pan_def Let_def updateCameraMatrix_frame translation_updateCameraMatrix)

theorem pan_round_trip_witness:
  "camera_invariant example_camera \<and>
   pan (pan example_camera (10, 20)) (- 10, - 20) = example_camera"
  using pan_round_trip [OF example_camera_invariant, of "(10, 20)"] example_camera_invariant
  by simp

section \<open>The points that rotate projects\<close>

text \<open>
  Claim C1. The claim has \<open>rotate\<close> project the point of \<open>prevMouse\<close>, both of whose
  coordinates come from \<open>prevMouse\<close>. The source computes the first coordinate of \<open>mPrev\<close>
  from \<open>curMouse[0]\<close>: the result of \<open>rotate\<close> does not depend on the first coordinate of
  \<open>prevMouse\<close> at all. For the camera \<open>example_camera\<close> (a surface of 100 by 100 pixels,
  no rotation yet) and the drag from \<open>(0, 50)\<close> to \<open>(50, 50)\<close> the source leaves the
  rotation at \<open>(0, 0, 0, -1)\<close>, which rotates nothing, where the claimed computation
  gives \<open>(0, -1, 0, 0)\<close>.
\<close>

theorem rotate_ignores_prevMouse_x:
  "rotate_cam s (x, y) curMouse = rotate_cam s (x', y) curMouse \<and>
   rotation (rotate_cam example_camera (0, 50) (50, 50)) = Quat 0 0 0 (- 1) \<and>
   rotation (rotate_claimed example_camera (0, 50) (50, 50)) = Quat 0 (- 1) 0 0"
proof -
  have inv: "invScreen example_camera = (1 / 100, 1 / 100)"
    and rot: "rotation example_camera = Quat 0 0 0 1"
    by (simp_all add: example_camera_def updateCameraMatrix_frame)
  have centre: "screenToArcball (0, 0) = Quat 0 0 1 0"
    using screenToArcball_inside [of 0 0] by simp
  have edge: "screenToArcball (- 1, 0) = Quat (- 1) 0 0 0"
    using screenToArcball_inside [of "- 1" 0] by simp
  have code: "rotation (rotate_cam example_camera (0, 50) (50, 50)) = Quat 0 0 0 (- 1)"
    by (simp add: rotation_rotate_cam inv rot clamp_def centre)
  have claimed: "rotation (rotate_claimed example_camera (0, 50) (50, 50)) = Quat 0 (- 1) 0 0"
    by (simp add: rotate_claimed_def Let_def updateCameraMatrix_frame inv rot clamp_def
        centre edge)
  have "rotate_cam s (x, y) curMouse = rotate_cam s (x', y) curMouse"
    by (simp add: rotate_cam_def)
  with code claimed show ?thesis by simp
qed

section \<open>Two-finger moves\<close>

lemma sqrt_squares [simp]:
  "sqrt 16 = 4" "sqrt 100 = 10" "sqrt 6400 = 80" "sqrt 8836 = 94" "sqrt 10000 = 100"
  using real_sqrt_abs2 [of 4] real_sqrt_abs2 [of 10] real_sqrt_abs2 [of 80]
    real_sqrt_abs2 [of 94] real_sqrt_abs2 [of 100]
  by simp_all

lemma obj_simps [simp]:
  "is_array_index 0" "is_array_index 1"
  by (simp_all add: is_array_index_def)

text \<open>The touches \<open>0\<close> and \<open>1\<close> of \<open>two_touches\<close> are what \<open>onTouchStart\<close> leaves.\<close>

lemma two_touches_started:
  "fst (onTouchStart (canvas_env gt)
         \<lparr>mousemove = True, press = True, touches = [], twoFingerDrag = True, pinch = True\<rparr>
         \<lparr>changedTouches = [touch_at 0 x0 y0, touch_at 1 x1 y1]\<rparr>) =
   two_touches (x0, y0) (x1, y1)"
  by (simp add: onTouchStart_def two_touches_def touch_at_def canvas_env_def touch_point_def
      obj_put_def obj_has_def)

text \<open>
  A move of both tracked touches: the error of line 139 without a global \<open>t\<close>, the
  classification and the update of the table with one.
\<close>

lemma onTouchMove_two_touches_no_t:
  "onTouchMove (canvas_env False) (two_touches p0 p1) evt = Inl ReferenceError"
  by (simp add: onTouchMove_def two_touches_def canvas_env_def Let_def)

lemma onTouchMove_both:
  "onTouchMove (canvas_env True) (two_touches p0 p1)
     \<lparr>changedTouches = [touch_at 0 x0 y0, touch_at 1 x1 y1]\<rparr> =
   Inr (two_touches (x0, y0) (x1, y1),
        classify (two_touches p0 p1) p0 p1 (x0, y0) (x1, y1))"
  by (simp add: onTouchMove_def two_touches_def canvas_env_def Let_def touch_at_def
      touch_point_def update_touches_def obj_put_def obj_has_def)

lemma onTouchMove_first:
  "onTouchMove (canvas_env True) (two_touches p0 p1)
     \<lparr>changedTouches = [touch_at 0 x0 y0]\<rparr> =
   Inr (two_touches (x0, y0) p1,
        classify (two_touches p0 p1) p0 p1 (x0, y0) p1)"
  by (simp add: onTouchMove_def two_touches_def canvas_env_def Let_def touch_at_def
      touch_point_def update_touches_def obj_put_def obj_has_def)

lemma classify_pinch_scenario:
  "classify (two_touches (0, 100) (100, 100)) (0, 100) (100, 100) (10, 100) (90, 100) =
   [Pinch (- 20)]"
  by (simp add: classify_def pinchMotion_def panMotion_def motionVectors_def Let_def
      two_touches_def pointDist_def)

lemma sgn_differ_iff:
  fixes a b :: real
  assumes "\<bar>a\<bar> > 1 / 2" and "\<bar>b\<bar> > 1 / 2"
  shows "sgn a \<noteq> sgn b \<longleftrightarrow> 0 < a \<and> b < 0 \<or> a < 0 \<and> 0 < b"
  using assms by (auto simp add: sgn_if)

lemma sgn_same_iff:
  fixes a b :: real
  assumes "\<bar>a\<bar> > 1 / 2" and "\<bar>b\<bar> > 1 / 2"
  shows "sgn a = sgn b \<longleftrightarrow> 0 < a \<and> 0 < b \<or> a < 0 \<and> b < 0"
  using assms by (auto simp add: sgn_if)

text \<open>
  Which branch of the classification runs: the pinch branch if a pinch callback is
  registered and the pinch alignments fit; otherwise the pan branch if a drag callback
  is registered and the pan alignments fit; otherwise none.
\<close>

lemma classify_pinch:
  assumes "pinch c" and "pinch_aligned old0 old1 new0 new1"
  shows "classify c old0 old1 new0 new1 = [Pinch (pointDist new0 new1 - pointDist old0 old1)]"
  using assms sgn_differ_iff [of "fst (pinchMotion old0 old1 new0 new1)"
      "snd (pinchMotion old0 old1 new0 new1)"]
  by (auto simp add: classify_def pinch_aligned_def Let_def)

lemma classify_not_pinch:
  assumes "\<not> (pinch c \<and> pinch_aligned old0 old1 new0 new1)"
  shows "classify c old0 old1 new0 new1 =
     (if twoFingerDrag c \<and> pan_aligned old0 old1 new0 new1
      then [TwoFingerDrag
              (fst (vec2_lerp (fst (motionVectors old0 old1 new0 new1))
                      (snd (motionVectors old0 old1 new0 new1)) (1 / 2)),
               - snd (vec2_lerp (fst (motionVectors old0 old1 new0 new1))
                        (snd (motionVectors old0 old1 new0 new1)) (1 / 2)))]
      else [])"
proof -
  have np: "\<not> (pinch c \<and> \<bar>fst (pinchMotion old0 old1 new0 new1)\<bar> > 1 / 2
      \<and> \<bar>snd (pinchMotion old0 old1 new0 new1)\<bar> > 1 / 2
      \<and> sgn (fst (pinchMotion old0 old1 new0 new1)) \<noteq> sgn (snd (pinchMotion old0 old1 new0 new1)))"
    using assms sgn_differ_iff [of "fst (pinchMotion old0 old1 new0 new1)"
        "snd (pinchMotion old0 old1 new0 new1)"]
    by (auto simp add: pinch_aligned_def Let_def)
  have pa: "pan_aligned old0 old1 new0 new1 \<longleftrightarrow>
      \<bar>fst (panMotion old0 old1 new0 new1)\<bar> > 1 / 2
      \<and> \<bar>snd (panMotion old0 old1 new0 new1)\<bar> > 1 / 2
      \<and> sgn (fst (panMotion old0 old1 new0 new1)) = sgn (snd (panMotion old0 old1 new0 new1))"
    using sgn_same_iff [of "fst (panMotion old0 old1 new0 new1)"
        "snd (panMotion old0 old1 new0 new1)"]
    by (auto simp add: pan_aligned_def Let_def)
  show ?thesis
    unfolding classify_def Let_def pa using np by auto
qed

lemma classify_pinch_iff:
  "(\<exists>d. classify c old0 old1 new0 new1 = [Pinch d]) \<longleftrightarrow>
   pinch c \<and> pinch_aligned old0 old1 new0 new1"
proof (cases "pinch c \<and> pinch_aligned old0 old1 new0 new1")
  case True
  then show ?thesis using classify_pinch [of c old0 old1 new0 new1] by simp
next
  case False
  then show ?thesis using classify_not_pinch [OF False] by simp
qed

lemma classify_pan_iff:
  "(\<exists>v. classify c old0 old1 new0 new1 = [TwoFingerDrag v]) \<longleftrightarrow>
   twoFingerDrag c \<and> pan_aligned old0 old1 new0 new1 \<and>
   \<not> (pinch c \<and> pinch_aligned old0 old1 new0 new1)"
proof (cases "pinch c \<and> pinch_aligned old0 old1 new0 new1")
  case True
  then show ?thesis using classify_pinch [of c old0 old1 new0 new1] by simp
next
  case False
  then show ?thesis using classify_not_pinch [OF False] by simp
qed

lemma classify_neither:
  assumes "\<not> pinch_aligned old0 old1 new0 new1" and "\<not> pan_aligned old0 old1 new0 new1"
  shows "classify c old0 old1 new0 new1 = []"
  using assms classify_not_pinch [of c old0 old1 new0 new1] by simp

text \<open>Two touches that move by the same vector \<open>(5, 5)\<close>.\<close>

lemma normalize_5_5: "vec2_normalize (5, 5) = (5 / sqrt 50, 5 / sqrt 50)"
proof -
  have "sqrt 50 > 1" by simp
  then have "sqrt 50 > 1 / 100000" by linarith
  then show ?thesis by (simp add: Let_def)
qed

lemma same_move_pinchMotion:
  "fst (pinchMotion (x0, y0) (x1, y1) (x0 + 5, y0 + 5) (x1 + 5, y1 + 5)) =
   snd (pinchMotion (x0, y0) (x1, y1) (x0 + 5, y0 + 5) (x1 + 5, y1 + 5))"
  by (simp add: pinchMotion_def motionVectors_def Let_def del: vec2_normalize.simps)

lemma same_move_panMotion:
  "panMotion (x0, y0) (x1, y1) (x0 + 5, y0 + 5) (x1 + 5, y1 + 5) = (1, 1)"
proof -
  have "5 / sqrt 50 * (5 / sqrt 50) + 5 / sqrt 50 * (5 / sqrt 50) = 50 / (sqrt 50 * sqrt 50)"
    by simp
  also have "\<dots> = 1" by simp
  finally show ?thesis
    by (simp add: panMotion_def motionVectors_def Let_def normalize_5_5
        del: vec2_normalize.simps)
qed

lemma same_move_classify:
  "classify (c\<lparr>twoFingerDrag := True\<rparr>) (x0, y0) (x1, y1) (x0 + 5, y0 + 5) (x1 + 5, y1 + 5) =
   [TwoFingerDrag (5, - 5)]"
proof -
  have "\<not> pinch_aligned (x0, y0) (x1, y1) (x0 + 5, y0 + 5) (x1 + 5, y1 + 5)"
    using same_move_pinchMotion [of x0 y0 x1 y1] by (auto simp add: pinch_aligned_def Let_def)
  moreover have "pan_aligned (x0, y0) (x1, y1) (x0 + 5, y0 + 5) (x1 + 5, y1 + 5)"
    by (simp add: pan_aligned_def same_move_panMotion)
  ultimately show ?thesis
    using classify_not_pinch [of "c\<lparr>twoFingerDrag := True\<rparr>" "(x0, y0)" "(x1, y1)"
        "(x0 + 5, y0 + 5)" "(x1 + 5, y1 + 5)"]
    by (simp add: motionVectors_def)
qed

text \<open>
  Claim C2. The two tracked touches start at \<open>(0, 100)\<close> and \<open>(100, 100)\<close> and move to
  \<open>(10, 100)\<close> and \<open>(90, 100)\<close>. The claim has the move invoke the pinch callback with \<open>-20\<close>.
  The handler enumerates \<open>touches\<close> into the undeclared variable \<open>t\<close> before it
  classifies: in a browser without a global \<open>t\<close> it throws a \<open>ReferenceError\<close> and calls
  nothing. With a global \<open>t\<close> it does what the claim says: it calls the pinch callback,
  and no other, with \<open>80 - 100 = -20\<close>, and stores the new positions.
\<close>

theorem pinch_scenario:
  "onTouchMove (canvas_env False) (two_touches (0, 100) (100, 100))
     \<lparr>changedTouches = [touch_at 0 10 100, touch_at 1 90 100]\<rparr> = Inl ReferenceError \<and>
   onTouchMove (canvas_env True) (two_touches (0, 100) (100, 100))
     \<lparr>changedTouches = [touch_at 0 10 100, touch_at 1 90 100]\<rparr> =
     Inr (two_touches (10, 100) (90, 100), [Pinch (- 20)])"
  by (simp add: onTouchMove_two_touches_no_t onTouchMove_both classify_pinch_scenario)

text \<open>
  The pinch test comes first. The touches at \<open>(0, 0)\<close> and \<open>(100, 0)\<close> move to \<open>(3, 4)\<close>
  and \<open>(97, 4)\<close>: both pan alignments are \<open>0.8\<close> and the pinch alignments are \<open>0.6\<close> and
  \<open>-0.6\<close>, and the handler, where a global \<open>t\<close> exists, calls the pinch callback and not
  the drag callback.
\<close>

lemma pinch_before_pan:
  "pan_aligned (0, 0) (100, 0) (3, 4) (97, 4) \<and>
   onTouchMove (canvas_env True) (two_touches (0, 0) (100, 0))
     \<lparr>changedTouches = [touch_at 0 3 4, touch_at 1 97 4]\<rparr> =
     Inr (two_touches (3, 4) (97, 4), [Pinch (- 6)])"
proof -
  have pan: "pan_aligned (0, 0) (100, 0) (3, 4) (97, 4)"
    by (simp add: pan_aligned_def panMotion_def motionVectors_def Let_def sqrt_25)
  have pinch: "pinch_aligned (0, 0) (100, 0) (3, 4) (97, 4)"
    by (simp add: pinch_aligned_def pinchMotion_def motionVectors_def Let_def sqrt_25)
  have "classify (two_touches (0, 0) (100, 0)) (0, 0) (100, 0) (3, 4) (97, 4) = [Pinch (- 6)]"
    using classify_pinch [OF _ pinch, of "two_touches (0, 0) (100, 0)"]
    by (simp add: two_touches_def pointDist_def)
  with pan show ?thesis by (simp add: onTouchMove_both)
qed

text \<open>
  Claim C8. Both tracked touches move by the same vector \<open>(5, 5)\<close>, from whatever
  positions. The claim has the move invoke the drag callback with \<open>(5, -5)\<close>, the averaged
  motion with its Y component negated. Without a global \<open>t\<close> the handler throws the
  \<open>ReferenceError\<close> of line 139 before it classifies and calls nothing. With a global
  \<open>t\<close> it does what the claim says: it calls the drag callback, and no other, with
  \<open>(5, -5)\<close>, and stores the new positions.
\<close>

theorem two_finger_drag:
  "onTouchMove (canvas_env False) (two_touches (x0, y0) (x1, y1))
     \<lparr>changedTouches = [touch_at 0 (x0 + 5) (y0 + 5), touch_at 1 (x1 + 5) (y1 + 5)]\<rparr> =
     Inl ReferenceError \<and>
   onTouchMove (canvas_env True) (two_touches (x0, y0) (x1, y1))
     \<lparr>changedTouches = [touch_at 0 (x0 + 5) (y0 + 5), touch_at 1 (x1 + 5) (y1 + 5)]\<rparr> =
     Inr (two_touches (x0 + 5, y0 + 5) (x1 + 5, y1 + 5), [TwoFingerDrag (5, - 5)])"
proof -
  have "two_touches (x0, y0) (x1, y1) = (two_touches (x0, y0) (x1, y1))\<lparr>twoFingerDrag := True\<rparr>"
    by (simp add: two_touches_def)
  then have "classify (two_touches (x0, y0) (x1, y1)) (x0, y0) (x1, y1)
      (x0 + 5, y0 + 5) (x1 + 5, y1 + 5) = [TwoFingerDrag (5, - 5)]"
    using same_move_classify [of "two_touches (x0, y0) (x1, y1)" x0 y0 x1 y1] by simp
  then show ?thesis
    by (simp add: onTouchMove_two_touches_no_t onTouchMove_both)
qed

text \<open>
  Claim C9. The tracked touches are at \<open>(0, 100)\<close> and \<open>(100, 100)\<close>; the first moves to
  \<open>(0, 110)\<close> and the second stays. Neither alignment condition holds. The claim has the
  handler call nothing and store the changed position. Without a global \<open>t\<close> the handler
  throws the \<open>ReferenceError\<close> of line 139 and the table is not updated; with one it does
  what the claim says.
\<close>

theorem ambiguous_move:
  "\<not> pinch_aligned (0, 100) (100, 100) (0, 110) (100, 100) \<and>
   \<not> pan_aligned (0, 100) (100, 100) (0, 110) (100, 100) \<and>
   onTouchMove (canvas_env False) (two_touches (0, 100) (100, 100))
     \<lparr>changedTouches = [touch_at 0 0 110]\<rparr> = Inl ReferenceError \<and>
   onTouchMove (canvas_env True) (two_touches (0, 100) (100, 100))
     \<lparr>changedTouches = [touch_at 0 0 110]\<rparr> =
     Inr (two_touches (0, 110) (100, 100), [])"
proof -
  have pinch: "\<not> pinch_aligned (0, 100) (100, 100) (0, 110) (100, 100)"
    by (simp add: pinch_aligned_def pinchMotion_def motionVectors_def Let_def)
  have pan: "\<not> pan_aligned (0, 100) (100, 100) (0, 110) (100, 100)"
    by (simp add: pan_aligned_def panMotion_def motionVectors_def Let_def)
  from pinch pan show ?thesis
    by (simp add: onTouchMove_two_touches_no_t onTouchMove_first classify_neither)
qed

end
